theory Spec2Isabelle
  imports Main "HOL-Library.Word"
begin

unbundle bit_operations_syntax

section \<open>The kernel NPEM backend of ledmon (src/lib/kernel\_npem.c)\<close>

text \<open>
  The backend drives the enclosure LEDs of one NPEM controller through the brightness nodes
  the kernel exposes below the controller's sysfs directory. The C functions are embedded
  one by one; every function that touches the filesystem takes the filesystem and returns
  it, together with its C return value.
\<close>

subsection \<open>Capability bits\<close>

type_synonym u32 = "32 word"

definition PCI_NPEM_OK_CAP :: int where "PCI_NPEM_OK_CAP = 0x004"
definition PCI_NPEM_LOCATE_CAP :: int where "PCI_NPEM_LOCATE_CAP = 0x008"
definition PCI_NPEM_FAIL_CAP :: int where "PCI_NPEM_FAIL_CAP = 0x010"
definition PCI_NPEM_REBUILD_CAP :: int where "PCI_NPEM_REBUILD_CAP = 0x020"
definition PCI_NPEM_PFA_CAP :: int where "PCI_NPEM_PFA_CAP = 0x040"
definition PCI_NPEM_HOT_SPARE_CAP :: int where "PCI_NPEM_HOT_SPARE_CAP = 0x080"
definition PCI_NPEM_CRA_CAP :: int where "PCI_NPEM_CRA_CAP = 0x100"
definition PCI_NPEM_FA_CAP :: int where "PCI_NPEM_FA_CAP = 0x200"

subsection \<open>Indicator patterns and status codes\<close>

text \<open>
  Modelled from the spec: \<^verbatim>\<open>enum led_ibpi_pattern\<close> is declared in led/libled.h, which is
  not among the sources. A C enumeration is an integer, so a pattern is an \<^typ>\<open>int\<close> and
  a caller can pass any value, also one this backend has no name for. The spec fixes that
  Normal .. LocateOff is the contiguous valid command range, in the order Normal,
  OneshotNormal, Degraded, HotSpare, Rebuild, FailedArray, PredictedFailure, FailedDrive,
  Locate, LocateOff, and that Unknown is a sentinel outside that range. The numbering below
  follows that order with the sentinel at 0; the proofs use only the order and the
  distinctness of the enumerators.
\<close>

type_synonym led_ibpi_pattern = int

definition LED_IBPI_PATTERN_UNKNOWN :: led_ibpi_pattern where "LED_IBPI_PATTERN_UNKNOWN = 0"
definition LED_IBPI_PATTERN_NORMAL :: led_ibpi_pattern where "LED_IBPI_PATTERN_NORMAL = 2"
definition LED_IBPI_PATTERN_ONESHOT_NORMAL :: led_ibpi_pattern where
  "LED_IBPI_PATTERN_ONESHOT_NORMAL = 3"
definition LED_IBPI_PATTERN_DEGRADED :: led_ibpi_pattern where "LED_IBPI_PATTERN_DEGRADED = 4"
definition LED_IBPI_PATTERN_HOTSPARE :: led_ibpi_pattern where "LED_IBPI_PATTERN_HOTSPARE = 5"
definition LED_IBPI_PATTERN_REBUILD :: led_ibpi_pattern where "LED_IBPI_PATTERN_REBUILD = 6"
definition LED_IBPI_PATTERN_FAILED_ARRAY :: led_ibpi_pattern where
  "LED_IBPI_PATTERN_FAILED_ARRAY = 7"
definition LED_IBPI_PATTERN_PFA :: led_ibpi_pattern where "LED_IBPI_PATTERN_PFA = 8"
definition LED_IBPI_PATTERN_FAILED_DRIVE :: led_ibpi_pattern where
  "LED_IBPI_PATTERN_FAILED_DRIVE = 9"
definition LED_IBPI_PATTERN_LOCATE :: led_ibpi_pattern where "LED_IBPI_PATTERN_LOCATE = 10"
definition LED_IBPI_PATTERN_LOCATE_OFF :: led_ibpi_pattern where
  "LED_IBPI_PATTERN_LOCATE_OFF = 11"

text \<open>
  Modelled from the spec: \<^verbatim>\<open>status_t\<close> is declared in status.h, which is not among the
  sources. Only the two codes this backend returns are needed: success, and the one code
  shared by the unsupported-pattern and the invalid-range rejections.
\<close>

datatype status_t = STATUS_SUCCESS | STATUS_INVALID_STATE

subsection \<open>The two static tables\<close>

text \<open>
  \<^verbatim>\<open>struct ibpi2value\<close> (utils.h) pairs a pattern with an unsigned value;
  \<^verbatim>\<open>struct kernel_npem_led\<close> pairs an \<^verbatim>\<open>int\<close> bitmask with the name of a LED.
\<close>

record ibpi2value =
  ibpi :: led_ibpi_pattern
  "value" :: u32

record kernel_npem_led =
  bitmask :: int
  sysfs_led_name :: string

definition ibpi_to_npem_capability :: "ibpi2value list" where
  "ibpi_to_npem_capability =
    [\<lparr>ibpi = LED_IBPI_PATTERN_NORMAL, value = word_of_int PCI_NPEM_OK_CAP\<rparr>,
     \<lparr>ibpi = LED_IBPI_PATTERN_ONESHOT_NORMAL, value = word_of_int PCI_NPEM_OK_CAP\<rparr>,
     \<lparr>ibpi = LED_IBPI_PATTERN_DEGRADED, value = word_of_int PCI_NPEM_CRA_CAP\<rparr>,
     \<lparr>ibpi = LED_IBPI_PATTERN_HOTSPARE, value = word_of_int PCI_NPEM_HOT_SPARE_CAP\<rparr>,
     \<lparr>ibpi = LED_IBPI_PATTERN_REBUILD, value = word_of_int PCI_NPEM_REBUILD_CAP\<rparr>,
     \<lparr>ibpi = LED_IBPI_PATTERN_FAILED_ARRAY, value = word_of_int PCI_NPEM_FA_CAP\<rparr>,
     \<lparr>ibpi = LED_IBPI_PATTERN_PFA, value = word_of_int PCI_NPEM_PFA_CAP\<rparr>,
     \<lparr>ibpi = LED_IBPI_PATTERN_FAILED_DRIVE, value = word_of_int PCI_NPEM_FAIL_CAP\<rparr>,
     \<lparr>ibpi = LED_IBPI_PATTERN_LOCATE, value = word_of_int PCI_NPEM_LOCATE_CAP\<rparr>,
     \<lparr>ibpi = LED_IBPI_PATTERN_LOCATE_OFF, value = word_of_int PCI_NPEM_OK_CAP\<rparr>,
     \<lparr>ibpi = LED_IBPI_PATTERN_UNKNOWN, value = 0\<rparr>]"

definition kernel_npem_leds :: "kernel_npem_led list" where
  "kernel_npem_leds =
    [\<lparr>bitmask = PCI_NPEM_OK_CAP, sysfs_led_name = ''enclosure:ok''\<rparr>,
     \<lparr>bitmask = PCI_NPEM_LOCATE_CAP, sysfs_led_name = ''enclosure:locate''\<rparr>,
     \<lparr>bitmask = PCI_NPEM_FAIL_CAP, sysfs_led_name = ''enclosure:fail''\<rparr>,
     \<lparr>bitmask = PCI_NPEM_REBUILD_CAP, sysfs_led_name = ''enclosure:rebuild''\<rparr>,
     \<lparr>bitmask = PCI_NPEM_PFA_CAP, sysfs_led_name = ''enclosure:pfa''\<rparr>,
     \<lparr>bitmask = PCI_NPEM_HOT_SPARE_CAP, sysfs_led_name = ''enclosure:hotspare''\<rparr>,
     \<lparr>bitmask = PCI_NPEM_CRA_CAP, sysfs_led_name = ''enclosure:ica''\<rparr>,
     \<lparr>bitmask = PCI_NPEM_FA_CAP, sysfs_led_name = ''enclosure:ifa''\<rparr>]"

text \<open>
  Modelled from the spec: \<^verbatim>\<open>get_by_ibpi\<close> and \<^verbatim>\<open>get_by_bits\<close> live in utils.c, which
  is not among the sources. The spec: lookup-by-pattern returns the first exact match;
  lookup-by-bitmask returns the first entry whose bit is present in the given mask; the
  terminal entry (Unknown, 0) is the default for lookups that find nothing and must always
  be present. The scan therefore stops at the last entry and returns it whether it matches
  or not. The C functions take the array and its length; the list carries both. A table
  with no entry at all is outside the contract; the model answers with the sentinel there.
\<close>

fun get_by_ibpi :: "led_ibpi_pattern \<Rightarrow> ibpi2value list \<Rightarrow> ibpi2value" where
  "get_by_ibpi p [] = \<lparr>ibpi = LED_IBPI_PATTERN_UNKNOWN, value = 0\<rparr>"
| "get_by_ibpi p [e] = e"
| "get_by_ibpi p (e # es) = (if ibpi e = p then e else get_by_ibpi p es)"

fun get_by_bits :: "u32 \<Rightarrow> ibpi2value list \<Rightarrow> ibpi2value" where
  "get_by_bits bits [] = \<lparr>ibpi = LED_IBPI_PATTERN_UNKNOWN, value = 0\<rparr>"
| "get_by_bits bits [e] = e"
| "get_by_bits bits (e # es) = (if value e AND bits \<noteq> 0 then e else get_by_bits bits es)"

subsection \<open>The filesystem\<close>

text \<open>
  The filesystem is a map from paths to the text of the node at that path, the set of the
  paths whose node rejects a write (a node without write permission, a LED the driver
  does not let user space set), and the list of the calls made on it so far, oldest first.
  No call changes which nodes exist or which of them reject writes.
\<close>

datatype syscall = Stat string | Read string | Write string string

record filesystem =
  nodes :: "string \<rightharpoonup> string"
  readonly :: "string set"
  calls :: "syscall list"

text \<open>\<^verbatim>\<open>stat(2)\<close>: 0 when the path names a node, -1 otherwise.\<close>

definition stat :: "filesystem \<Rightarrow> string \<Rightarrow> int \<times> filesystem" where
  "stat fs p =
    ((case nodes fs p of None \<Rightarrow> - 1 | Some _ \<Rightarrow> 0), fs\<lparr>calls := calls fs @ [Stat p]\<rparr>)"

text \<open>
  Modelled from the spec: \<^verbatim>\<open>get_int\<close> and \<^verbatim>\<open>buf_write\<close> live in utils.c, which is not
  among the sources. The spec: a node holds an integer as text, 0 for inactive and non-zero
  for active; reading it yields that integer, and a read that fails or a node that is
  absent yields the default; the writer stores the literal text it is given. The text is
  read as an optional minus sign followed by decimal digits, anything after the digits
  (the newline the kernel appends) being ignored; a text that does not start with a number
  is a failed read. \<^verbatim>\<open>get_int("/", 0, led_path)\<close> names the node \<^verbatim>\<open>led_path\<close> from the
  root directory, so the model takes the node's path alone. A write can fail: the spec
  names a failed node write as a case that is skipped silently, and the writer below
  discards the result of \<^verbatim>\<open>buf_write\<close>. A write to a node that is absent or that rejects
  writes leaves the node map as it is; the call is recorded all the same. What
  \<^verbatim>\<open>get_int\<close> does with a path too long for a buffer of its own the spec does not say;
  the model reads the node at the path it is handed.
\<close>

definition is_digit :: "char \<Rightarrow> bool" where
  "is_digit c = (48 \<le> (of_char c :: nat) \<and> (of_char c :: nat) \<le> 57)"

definition digits_value :: "string \<Rightarrow> int" where
  "digits_value ds = fold (\<lambda>c a. 10 * a + (int (of_char c) - 48)) ds 0"

definition int_of_text :: "string \<Rightarrow> int option" where
  "int_of_text txt =
    (let neg = (case txt of [] \<Rightarrow> False | c # _ \<Rightarrow> c = CHR ''-'');
         ds = takeWhile is_digit (if neg then tl txt else txt)
     in if ds = [] then None
        else Some (if neg then - digits_value ds else digits_value ds))"

definition get_int :: "filesystem \<Rightarrow> int \<Rightarrow> string \<Rightarrow> int \<times> filesystem" where
  "get_int fs defval p =
    ((case nodes fs p of
        None \<Rightarrow> defval
      | Some txt \<Rightarrow> (case int_of_text txt of None \<Rightarrow> defval | Some v \<Rightarrow> v)),
     fs\<lparr>calls := calls fs @ [Read p]\<rparr>)"

definition buf_write :: "filesystem \<Rightarrow> string \<Rightarrow> string \<Rightarrow> filesystem" where
  "buf_write fs p txt =
    fs\<lparr>nodes :=
         (case nodes fs p of
            None \<Rightarrow> nodes fs
          | Some _ \<Rightarrow> if p \<in> readonly fs then nodes fs else (nodes fs)(p \<mapsto> txt)),
       calls := calls fs @ [Write p txt]\<rparr>"

subsection \<open>Paths of the LED nodes\<close>

text \<open>
  \<^verbatim>\<open>make_led_path\<close> prints \<^verbatim>\<open>"%s/leds/%s:%s/brightness"\<close> from the controller's path,
  its basename and the LED's name into \<^verbatim>\<open>char led_path[PATH_MAX]\<close>. \<^verbatim>\<open>snprintf\<close> stores
  at most \<^verbatim>\<open>PATH_MAX - 1\<close> characters and the terminating zero, so a longer text is cut.
  \<^verbatim>\<open>PATH_MAX\<close> is the constant of \<^verbatim>\<open>limits.h\<close>, 4096 on Linux; \<^verbatim>\<open>basename\<close> is libc's: the
  part after the last slash.
\<close>

definition PATH_MAX :: nat where "PATH_MAX = 4096"

definition basename :: "string \<Rightarrow> string" where
  "basename p = rev (takeWhile (\<lambda>c. c \<noteq> CHR ''/'') (rev p))"

definition led_path_text :: "string \<Rightarrow> string \<Rightarrow> string" where
  "led_path_text path led_name =
    path @ ''/leds/'' @ basename path @ '':'' @ led_name @ ''/brightness''"

definition make_led_path :: "string \<Rightarrow> string \<Rightarrow> string" where
  "make_led_path path led_name = take (PATH_MAX - 1) (led_path_text path led_name)"

subsection \<open>Reading, writing and probing the register\<close>

text \<open>
  Each of the three C functions is a \<^verbatim>\<open>for\<close> loop over \<^verbatim>\<open>kernel_npem_leds\<close>; the loop is
  a recursion over the table, with the loop's variables as arguments.
\<close>

fun read_leds :: "string \<Rightarrow> kernel_npem_led list \<Rightarrow> u32 \<Rightarrow> filesystem \<Rightarrow> u32 \<times> filesystem" where
  "read_leds path [] reg fs = (reg, fs)"
| "read_leds path (led # leds) reg fs =
    (let led_path = make_led_path path (sysfs_led_name led);
         (v, fs') = get_int fs 0 led_path
     in read_leds path leds (reg OR (if v \<noteq> 0 then word_of_int (bitmask led) else 0)) fs')"

definition read_kernel_npem_register :: "filesystem \<Rightarrow> string \<Rightarrow> u32 \<times> filesystem" where
  "read_kernel_npem_register fs path = read_leds path kernel_npem_leds 0 fs"

fun write_leds :: "string \<Rightarrow> u32 \<Rightarrow> kernel_npem_led list \<Rightarrow> filesystem \<Rightarrow> filesystem" where
  "write_leds path val [] fs = fs"
| "write_leds path val (led # leds) fs =
    (let led_path = make_led_path path (sysfs_led_name led);
         val_text = (if val AND word_of_int (bitmask led) \<noteq> 0 then ''1'' else ''0'');
         (rc, fs') = stat fs led_path
     in write_leds path val leds (if rc = 0 then buf_write fs' led_path val_text else fs'))"

definition write_kernel_npem_register :: "filesystem \<Rightarrow> string \<Rightarrow> u32 \<Rightarrow> int \<times> filesystem" where
  "write_kernel_npem_register fs path val = (0, write_leds path val kernel_npem_leds fs)"

fun probe_leds :: "string \<Rightarrow> kernel_npem_led list \<Rightarrow> u32 \<Rightarrow> filesystem \<Rightarrow> u32 \<times> filesystem" where
  "probe_leds path [] supported fs = (supported, fs)"
| "probe_leds path (led # leds) supported fs =
    (let led_path = make_led_path path (sysfs_led_name led);
         (rc, fs') = stat fs led_path
     in probe_leds path leds
          (if rc = 0 then supported OR word_of_int (bitmask led) else supported) fs')"

definition kernel_npem_supported_mask :: "filesystem \<Rightarrow> string \<Rightarrow> u32 \<times> filesystem" where
  "kernel_npem_supported_mask fs path = probe_leds path kernel_npem_leds 0 fs"


subsection \<open>Get-state and Set-state\<close>

text \<open>
  Of the slot, the block device and the controller only the controller's sysfs path is
  used. \<^verbatim>\<open>lib_log\<close> writes to the library's log, which no function here reads; it is left
  out.
\<close>

record cntrl_device =
  sysfs_path :: string

record slot_property =
  slot_cntrl :: cntrl_device

record block_device =
  cntrl :: cntrl_device

definition kernel_npem_get_state :: "filesystem \<Rightarrow> slot_property \<Rightarrow> led_ibpi_pattern \<times> filesystem" where
  "kernel_npem_get_state fs slot =
    (let path = sysfs_path (slot_cntrl slot);
         (reg, fs') = read_kernel_npem_register fs path;
         ibpi2val = get_by_bits reg ibpi_to_npem_capability
     in (ibpi ibpi2val, fs'))"

definition kernel_npem_set_slot :: "filesystem \<Rightarrow> string \<Rightarrow> led_ibpi_pattern \<Rightarrow> status_t \<times> filesystem" where
  "kernel_npem_set_slot fs path state =
    (let ibpi2val = get_by_ibpi state ibpi_to_npem_capability
     in if ibpi ibpi2val = LED_IBPI_PATTERN_UNKNOWN then (STATUS_INVALID_STATE, fs)
        else
          let requested = value ibpi2val;
              (supported, fs') = kernel_npem_supported_mask fs path
          in if requested AND supported = 0 \<and> requested \<noteq> word_of_int PCI_NPEM_OK_CAP
             then (STATUS_INVALID_STATE, fs')
             else (STATUS_SUCCESS, snd (write_kernel_npem_register fs' path requested)))"

definition kernel_npem_set_state :: "filesystem \<Rightarrow> slot_property \<Rightarrow> led_ibpi_pattern \<Rightarrow> status_t \<times> filesystem" where
  "kernel_npem_set_state fs slot state =
    kernel_npem_set_slot fs (sysfs_path (slot_cntrl slot)) state"

definition kernel_npem_write :: "filesystem \<Rightarrow> block_device \<Rightarrow> led_ibpi_pattern \<Rightarrow> status_t \<times> filesystem" where
  "kernel_npem_write fs device pattern =
    (if pattern < LED_IBPI_PATTERN_NORMAL \<or> pattern > LED_IBPI_PATTERN_LOCATE_OFF
     then (STATUS_INVALID_STATE, fs)
     else kernel_npem_set_slot fs (sysfs_path (cntrl device)) pattern)"

subsection \<open>Notions used in the statements\<close>

text \<open>
  The path of a LED's brightness node as the code builds it, the text the writer sends to
  a LED, the integer a node reads as, the mask assembled from the LEDs that satisfy a
  predicate, one pass of the writer's loop body, and the text the writer sends last to a
  given path. The paths of an enclosure fit when none of the 8 is cut; the nodes of an
  enclosure take writes when none of the 8 rejects them.
\<close>

definition led_node :: "string \<Rightarrow> kernel_npem_led \<Rightarrow> string" where
  "led_node path led = make_led_path path (sysfs_led_name led)"

definition val_text :: "u32 \<Rightarrow> kernel_npem_led \<Rightarrow> string" where
  "val_text val led = (if val AND word_of_int (bitmask led) \<noteq> 0 then ''1'' else ''0'')"

definition node_value :: "filesystem \<Rightarrow> string \<Rightarrow> int" where
  "node_value fs p = fst (get_int fs 0 p)"

fun or_mask :: "(kernel_npem_led \<Rightarrow> bool) \<Rightarrow> kernel_npem_led list \<Rightarrow> u32" where
  "or_mask P [] = 0"
| "or_mask P (led # leds) = (if P led then word_of_int (bitmask led) else 0) OR or_mask P leds"

definition write_led :: "string \<Rightarrow> u32 \<Rightarrow> kernel_npem_led \<Rightarrow> filesystem \<Rightarrow> filesystem" where
  "write_led path val led fs =
    (let (rc, fs') = stat fs (led_node path led)
     in if rc = 0 then buf_write fs' (led_node path led) (val_text val led) else fs')"

fun last_write :: "string \<Rightarrow> u32 \<Rightarrow> kernel_npem_led list \<Rightarrow> string \<Rightarrow> string option" where
  "last_write path val [] q = None"
| "last_write path val (led # leds) q =
    (case last_write path val leds q of
       Some t \<Rightarrow> Some t
     | None \<Rightarrow> if led_node path led = q then Some (val_text val led) else None)"

definition led_paths_fit :: "string \<Rightarrow> bool" where
  "led_paths_fit path =
    list_all (\<lambda>led. length (led_path_text path (sysfs_led_name led)) < PATH_MAX)
      kernel_npem_leds"


subsection \<open>A concrete enclosure\<close>

text \<open>
  An enclosure that exposes only \<^verbatim>\<open>enclosure:ok\<close> and \<^verbatim>\<open>enclosure:fail\<close>, both lit and
  both taking writes; one that exposes no LED at all; one that exposes
  \<^verbatim>\<open>enclosure:locate\<close>, dark, and \<^verbatim>\<open>enclosure:fail\<close>, lit and rejecting writes; and a
  root of \<^verbatim>\<open>PATH_MAX - 1\<close> characters, which leaves no room for the rest of a LED's path.
\<close>

definition scenario_root :: string where
  "scenario_root = ''/sys/bus/pci/devices/0000:01:00.0''"

definition scenario_fs :: filesystem where
  "scenario_fs =
    \<lparr>nodes = [make_led_path scenario_root ''enclosure:ok'' \<mapsto> ''1'',
              make_led_path scenario_root ''enclosure:fail'' \<mapsto> ''1''],
     readonly = {},
     calls = []\<rparr>"

definition bare_fs :: filesystem where
  "bare_fs = \<lparr>nodes = Map.empty, readonly = {}, calls = []\<rparr>"

definition stuck_fs :: filesystem where
  "stuck_fs =
    \<lparr>nodes = [make_led_path scenario_root ''enclosure:locate'' \<mapsto> ''0'',
              make_led_path scenario_root ''enclosure:fail'' \<mapsto> ''1''],
     readonly = {make_led_path scenario_root ''enclosure:fail''},
     calls = []\<rparr>"

definition scenario_slot :: slot_property where
  "scenario_slot = \<lparr>slot_cntrl = \<lparr>sysfs_path = scenario_root\<rparr>\<rparr>"

definition scenario_device :: block_device where
  "scenario_device = \<lparr>cntrl = \<lparr>sysfs_path = scenario_root\<rparr>\<rparr>"

definition long_root :: string where
  "long_root = CHR ''/'' # replicate 4094 (CHR ''a'')"

definition long_fs :: filesystem where
  "long_fs = \<lparr>nodes = [long_root \<mapsto> ''1''], readonly = {}, calls = []\<rparr>"

section \<open>Properties\<close>

lemmas PCI_NPEM_defs =
  PCI_NPEM_OK_CAP_def PCI_NPEM_LOCATE_CAP_def PCI_NPEM_FAIL_CAP_def PCI_NPEM_REBUILD_CAP_def
  PCI_NPEM_PFA_CAP_def PCI_NPEM_HOT_SPARE_CAP_def PCI_NPEM_CRA_CAP_def PCI_NPEM_FA_CAP_def

lemmas LED_IBPI_PATTERN_defs =
  LED_IBPI_PATTERN_UNKNOWN_def LED_IBPI_PATTERN_NORMAL_def LED_IBPI_PATTERN_ONESHOT_NORMAL_def
  LED_IBPI_PATTERN_DEGRADED_def LED_IBPI_PATTERN_HOTSPARE_def LED_IBPI_PATTERN_REBUILD_def
  LED_IBPI_PATTERN_FAILED_ARRAY_def LED_IBPI_PATTERN_PFA_def LED_IBPI_PATTERN_FAILED_DRIVE_def
  LED_IBPI_PATTERN_LOCATE_def LED_IBPI_PATTERN_LOCATE_OFF_def

subsection \<open>The primitives and the three loops\<close>

lemma stat_simps:
  "fst (stat fs p) = 0 \<longleftrightarrow> nodes fs p \<noteq> None"
  "nodes (snd (stat fs p)) = nodes fs"
  "readonly (snd (stat fs p)) = readonly fs"
  "calls (snd (stat fs p)) = calls fs @ [Stat p]"
  by (auto simp: stat_def split: option.splits)

lemma get_int_simps:
  "nodes (snd (get_int fs d p)) = nodes fs"
  "readonly (snd (get_int fs d p)) = readonly fs"
  "calls (snd (get_int fs d p)) = calls fs @ [Read p]"
  by (auto simp: get_int_def)

lemma probe_leds_fst:
  "fst (probe_leds path leds acc fs) =
    acc OR or_mask (\<lambda>led. nodes fs (led_node path led) \<noteq> None) leds"
proof (induction leds arbitrary: acc fs)
  case Nil
  show ?case by simp
next
  case (Cons led leds)
  show ?case
    by (cases "stat fs (make_led_path path (sysfs_led_name led))")
       (use stat_simps(1,2)[of fs "make_led_path path (sysfs_led_name led)"] in
         \<open>auto simp: Cons.IH led_node_def or.assoc\<close>)
qed

lemma probe_leds_nodes: "nodes (snd (probe_leds path leds acc fs)) = nodes fs"
proof (induction leds arbitrary: acc fs)
  case Nil
  show ?case by simp
next
  case (Cons led leds)
  show ?case
    by (cases "stat fs (make_led_path path (sysfs_led_name led))")
       (use stat_simps(2)[of fs "make_led_path path (sysfs_led_name led)"] in
         \<open>auto simp: Cons.IH\<close>)
qed

lemma probe_leds_readonly: "readonly (snd (probe_leds path leds acc fs)) = readonly fs"
proof (induction leds arbitrary: acc fs)
  case Nil
  show ?case by simp
next
  case (Cons led leds)
  show ?case
    by (cases "stat fs (make_led_path path (sysfs_led_name led))")
       (use stat_simps(3)[of fs "make_led_path path (sysfs_led_name led)"] in
         \<open>auto simp: Cons.IH\<close>)
qed

lemma probe_leds_calls:
  "calls (snd (probe_leds path leds acc fs)) =
    calls fs @ map (\<lambda>led. Stat (led_node path led)) leds"
proof (induction leds arbitrary: acc fs)
  case Nil
  show ?case by simp
next
  case (Cons led leds)
  show ?case
    by (cases "stat fs (make_led_path path (sysfs_led_name led))")
       (use stat_simps(4)[of fs "make_led_path path (sysfs_led_name led)"] in
         \<open>auto simp: Cons.IH led_node_def\<close>)
qed

lemma read_leds_fst:
  "fst (read_leds path leds reg fs) =
    reg OR or_mask (\<lambda>led. node_value fs (led_node path led) \<noteq> 0) leds"
proof (induction leds arbitrary: reg fs)
  case Nil
  show ?case by simp
next
  case (Cons led leds)
  have cong: "node_value (snd (get_int fs 0 p)) q = node_value fs q" for p q
    by (simp add: node_value_def get_int_def)
  show ?case
    by (cases "get_int fs 0 (make_led_path path (sysfs_led_name led))")
       (use cong[of "make_led_path path (sysfs_led_name led)"] in
         \<open>auto simp: Cons.IH led_node_def or.assoc node_value_def\<close>)
qed

lemma write_leds_Cons:
  "write_leds path val (led # leds) fs = write_leds path val leds (write_led path val led fs)"
  by (simp add: write_led_def led_node_def val_text_def Let_def split: prod.splits)

lemma write_led_nodes:
  "nodes (write_led path val led fs) q =
    (if q = led_node path led \<and> nodes fs q \<noteq> None \<and> q \<notin> readonly fs
     then Some (val_text val led) else nodes fs q)"
  by (auto simp: write_led_def stat_def buf_write_def split: option.splits)

lemma write_led_readonly: "readonly (write_led path val led fs) = readonly fs"
  by (auto simp: write_led_def stat_def buf_write_def split: option.splits)

lemma write_led_calls:
  "calls (write_led path val led fs) =
    calls fs @ Stat (led_node path led) #
      (if nodes fs (led_node path led) \<noteq> None
       then [Write (led_node path led) (val_text val led)] else [])"
  by (auto simp: write_led_def stat_def buf_write_def split: option.splits)

lemma write_leds_readonly: "readonly (write_leds path val leds fs) = readonly fs"
proof (induction leds arbitrary: fs)
  case Nil
  show ?case by simp
next
  case (Cons led leds)
  show ?case
    unfolding write_leds_Cons Cons.IH by (rule write_led_readonly)
qed

lemma write_leds_exists:
  "nodes (write_leds path val leds fs) q = None \<longleftrightarrow> nodes fs q = None"
proof (induction leds arbitrary: fs)
  case Nil
  show ?case by simp
next
  case (Cons led leds)
  show ?case
    unfolding write_leds_Cons Cons.IH by (auto simp: write_led_nodes)
qed

text \<open>
  What the writer leaves at a path: a node that is absent or rejects writes is as before;
  any other node holds the text sent to it last, if any was.
\<close>

lemma write_leds_nodes:
  "nodes (write_leds path val leds fs) q =
    (if nodes fs q = None \<or> q \<in> readonly fs then nodes fs q
     else case last_write path val leds q of None \<Rightarrow> nodes fs q | Some t \<Rightarrow> Some t)"
proof (induction leds arbitrary: fs)
  case Nil
  show ?case by simp
next
  case (Cons led leds)
  show ?case
    unfolding write_leds_Cons Cons.IH
    by (auto simp: write_led_nodes write_led_readonly split: option.splits)
qed

lemma last_write_other:
  "q \<notin> led_node path ` set leds \<Longrightarrow> last_write path val leds q = None"
  by (induction leds) auto

lemma last_write_distinct:
  "distinct (map (led_node path) leds) \<Longrightarrow> led \<in> set leds \<Longrightarrow>
   last_write path val leds (led_node path led) = Some (val_text val led)"
proof (induction leds)
  case Nil
  then show ?case by simp
next
  case (Cons a leds)
  show ?case
  proof (cases "led \<in> set leds")
    case True
    with Cons show ?thesis by simp
  next
    case False
    with Cons.prems have "led = a" and "led_node path a \<notin> led_node path ` set leds"
      by auto
    then show ?thesis by (simp add: last_write_other)
  qed
qed

lemma write_leds_other:
  "q \<notin> led_node path ` set leds \<Longrightarrow> nodes (write_leds path val leds fs) q = nodes fs q"
  by (simp add: write_leds_nodes last_write_other)

lemma write_leds_node:
  assumes "distinct (map (led_node path) leds)" and "led \<in> set leds"
    and "led_node path led \<notin> readonly fs"
  shows "nodes (write_leds path val leds fs) (led_node path led) =
    (if nodes fs (led_node path led) = None then None else Some (val_text val led))"
  using assms(3) by (simp add: write_leds_nodes last_write_distinct[OF assms(1,2)])

lemma write_leds_calls:
  "calls (write_leds path val leds fs) =
    calls fs @ concat (map (\<lambda>led. Stat (led_node path led) #
      (if nodes fs (led_node path led) \<noteq> None
       then [Write (led_node path led) (val_text val led)] else [])) leds)"
proof (induction leds arbitrary: fs)
  case Nil
  show ?case by simp
next
  case (Cons led leds)
  have ex: "(\<exists>y. nodes (write_led path val led fs) q = Some y) \<longleftrightarrow> (\<exists>y. nodes fs q = Some y)" for q
    by (auto simp: write_led_nodes)
  show ?case
    unfolding write_leds_Cons Cons.IH by (simp add: write_led_calls ex)
qed


lemma or_mask_eq_0:
  "or_mask P leds = 0 \<longleftrightarrow>
    (\<forall>led \<in> set leds. P led \<longrightarrow> (word_of_int (bitmask led) :: u32) = 0)"
  by (induction leds) (auto simp: or_eq_0_iff)


subsection \<open>Paths\<close>

lemma led_path_text_inj: "led_path_text path a = led_path_text path b \<longleftrightarrow> a = b"
  by (simp add: led_path_text_def)

lemma make_led_path_fits:
  "length (led_path_text path name) < PATH_MAX \<Longrightarrow>
   make_led_path path name = led_path_text path name"
  by (simp add: make_led_path_def)

lemma led_node_fits:
  assumes "led_paths_fit path" and "led \<in> set kernel_npem_leds"
  shows "led_node path led = led_path_text path (sysfs_led_name led)"
  using assms by (simp add: led_paths_fit_def list_all_iff led_node_def make_led_path_fits)

lemma led_nodes_distinct:
  assumes "led_paths_fit path"
  shows "distinct (map (led_node path) kernel_npem_leds)"
proof -
  have "map (led_node path) kernel_npem_leds =
      map (\<lambda>led. led_path_text path (sysfs_led_name led)) kernel_npem_leds"
    by (rule map_cong[OF refl]) (rule led_node_fits[OF assms])
  then show ?thesis
    by (simp add: kernel_npem_leds_def led_path_text_inj)
qed

lemma basename_length: "length (basename p) \<le> length p"
  using length_takeWhile_le[of "\<lambda>c. c \<noteq> CHR ''/''" "rev p"] by (simp add: basename_def)

lemma scenario_path:
  assumes "length name \<le> 64"
  shows "make_led_path scenario_root name = led_path_text scenario_root name"
proof -
  have "length scenario_root = 33"
    by (simp add: scenario_root_def)
  with basename_length[of scenario_root] assms
  have "length (led_path_text scenario_root name) < PATH_MAX"
    by (simp add: led_path_text_def PATH_MAX_def)
  then show ?thesis by (rule make_led_path_fits)
qed

lemma scenario_fits: "led_paths_fit scenario_root"
proof -
  have "length scenario_root = 33"
    by (simp add: scenario_root_def)
  with basename_length[of scenario_root] show ?thesis
    by (simp add: led_paths_fit_def kernel_npem_leds_def led_path_text_def PATH_MAX_def)
qed

text \<open>A root of \<^verbatim>\<open>PATH_MAX - 1\<close> characters or more: all 8 paths are the cut root.\<close>

lemma make_led_path_cut:
  "PATH_MAX - 1 \<le> length path \<Longrightarrow> make_led_path path name = take (PATH_MAX - 1) path"
  by (simp add: make_led_path_def led_path_text_def)

lemma long_root_node: "led_node long_root led = long_root"
proof -
  have "length long_root = PATH_MAX - 1"
    by (simp add: long_root_def PATH_MAX_def)
  then show ?thesis
    by (simp add: led_node_def make_led_path_cut)
qed

subsection \<open>The tables\<close>



lemma supported_mask_fst:
  "fst (kernel_npem_supported_mask fs path) =
    or_mask (\<lambda>led. nodes fs (led_node path led) \<noteq> None) kernel_npem_leds"
  by (simp add: kernel_npem_supported_mask_def probe_leds_fst)

lemma supported_mask_nodes: "nodes (snd (kernel_npem_supported_mask fs path)) = nodes fs"
  by (simp add: kernel_npem_supported_mask_def probe_leds_nodes)

lemma supported_mask_readonly:
  "readonly (snd (kernel_npem_supported_mask fs path)) = readonly fs"
  by (simp add: kernel_npem_supported_mask_def probe_leds_readonly)

lemma supported_mask_calls:
  "calls (snd (kernel_npem_supported_mask fs path)) =
    calls fs @ map (\<lambda>led. Stat (led_node path led)) kernel_npem_leds"
  by (simp add: kernel_npem_supported_mask_def probe_leds_calls)

lemma read_register_fst:
  "fst (read_kernel_npem_register fs path) =
    or_mask (\<lambda>led. node_value fs (led_node path led) \<noteq> 0) kernel_npem_leds"
  by (simp add: read_kernel_npem_register_def read_leds_fst)

lemma get_state_fst:
  "fst (kernel_npem_get_state fs slot) =
    ibpi (get_by_bits (fst (read_kernel_npem_register fs (sysfs_path (slot_cntrl slot))))
      ibpi_to_npem_capability)"
  by (simp add: kernel_npem_get_state_def Let_def split: prod.splits)

lemma get_by_bits_find:
  "tbl \<noteq> [] \<Longrightarrow> get_by_bits bits tbl =
    (case find (\<lambda>e. value e AND bits \<noteq> 0) tbl of Some e \<Rightarrow> e | None \<Rightarrow> last tbl)"
  by (induction bits tbl rule: get_by_bits.induct) (auto split: option.splits)

lemma get_by_ibpi_find:
  "tbl \<noteq> [] \<Longrightarrow> get_by_ibpi p tbl =
    (case find (\<lambda>e. ibpi e = p) tbl of Some e \<Rightarrow> e | None \<Rightarrow> last tbl)"
  by (induction p tbl rule: get_by_ibpi.induct) (auto split: option.splits)

lemma get_by_bits_table_cases:
  "ibpi (get_by_bits bits ibpi_to_npem_capability) \<noteq> LED_IBPI_PATTERN_ONESHOT_NORMAL \<and>
   ibpi (get_by_bits bits ibpi_to_npem_capability) \<noteq> LED_IBPI_PATTERN_LOCATE_OFF"
  by (simp add: ibpi_to_npem_capability_def LED_IBPI_PATTERN_defs)

lemma get_by_bits_ok:
  "bits AND word_of_int PCI_NPEM_OK_CAP \<noteq> 0 \<Longrightarrow>
   ibpi (get_by_bits bits ibpi_to_npem_capability) = LED_IBPI_PATTERN_NORMAL"
  by (simp add: ibpi_to_npem_capability_def and.commute)

lemma get_by_bits_zero:
  "ibpi (get_by_bits 0 ibpi_to_npem_capability) = LED_IBPI_PATTERN_UNKNOWN"
  by (simp add: ibpi_to_npem_capability_def)

subsection \<open>Set-state by cases\<close>

lemma set_slot_cases:
  "kernel_npem_set_slot fs path state =
    (let e = get_by_ibpi state ibpi_to_npem_capability;
         probed = kernel_npem_supported_mask fs path
     in if ibpi e = LED_IBPI_PATTERN_UNKNOWN then (STATUS_INVALID_STATE, fs)
        else if value e AND fst probed = 0 \<and> value e \<noteq> word_of_int PCI_NPEM_OK_CAP
        then (STATUS_INVALID_STATE, snd probed)
        else (STATUS_SUCCESS, write_leds path (value e) kernel_npem_leds (snd probed)))"
  by (simp add: kernel_npem_set_slot_def write_kernel_npem_register_def Let_def
        split: prod.splits)

lemma get_by_ibpi_absent:
  assumes "state \<notin> ibpi ` set ibpi_to_npem_capability"
  shows "get_by_ibpi state ibpi_to_npem_capability = \<lparr>ibpi = LED_IBPI_PATTERN_UNKNOWN, value = 0\<rparr>"
proof -
  have "find (\<lambda>e. ibpi e = state) ibpi_to_npem_capability = None"
    using assms by (auto simp: find_None_iff)
  moreover have "last ibpi_to_npem_capability = \<lparr>ibpi = LED_IBPI_PATTERN_UNKNOWN, value = 0\<rparr>"
    by (simp add: ibpi_to_npem_capability_def)
  moreover have "ibpi_to_npem_capability \<noteq> []"
    by (simp add: ibpi_to_npem_capability_def)
  ultimately show ?thesis
    by (simp add: get_by_ibpi_find)
qed


lemma set_slot_success_iff:
  "fst (kernel_npem_set_slot fs path state) = STATUS_SUCCESS \<longleftrightarrow>
    ibpi (get_by_ibpi state ibpi_to_npem_capability) \<noteq> LED_IBPI_PATTERN_UNKNOWN \<and>
    (value (get_by_ibpi state ibpi_to_npem_capability) AND
       fst (kernel_npem_supported_mask fs path) \<noteq> 0 \<or>
     value (get_by_ibpi state ibpi_to_npem_capability) = word_of_int PCI_NPEM_OK_CAP)"
  by (auto simp: set_slot_cases Let_def)

lemma set_slot_success_snd:
  "fst (kernel_npem_set_slot fs path state) = STATUS_SUCCESS \<Longrightarrow>
   snd (kernel_npem_set_slot fs path state) =
     write_leds path (value (get_by_ibpi state ibpi_to_npem_capability)) kernel_npem_leds
       (snd (kernel_npem_supported_mask fs path))"
  by (auto simp: set_slot_cases Let_def split: if_splits)

lemma supported_mask_dom_cong:
  assumes "\<And>q. nodes fs1 q = None \<longleftrightarrow> nodes fs q = None"
  shows "fst (kernel_npem_supported_mask fs1 path) = fst (kernel_npem_supported_mask fs path)"
  by (simp add: supported_mask_fst assms)

text \<open>The node map after a Set-state that went through to the writer.\<close>

lemma set_slot_success_nodes:
  assumes "fst (kernel_npem_set_slot fs path state) = STATUS_SUCCESS"
  shows "nodes (snd (kernel_npem_set_slot fs path state)) q =
    (if nodes fs q = None \<or> q \<in> readonly fs then nodes fs q
     else case last_write path (value (get_by_ibpi state ibpi_to_npem_capability))
            kernel_npem_leds q of
          None \<Rightarrow> nodes fs q | Some t \<Rightarrow> Some t)"
  unfolding set_slot_success_snd[OF assms]
  by (simp add: write_leds_nodes supported_mask_nodes supported_mask_readonly
        split: option.splits)

lemma set_slot_readonly:
  "readonly (snd (kernel_npem_set_slot fs path state)) = readonly fs"
  by (simp add: set_slot_cases Let_def write_leds_readonly supported_mask_readonly)

subsection \<open>Reading back what was written\<close>

lemma int_of_text_1: "int_of_text ''1'' = Some 1"
  by (simp add: int_of_text_def is_digit_def digits_value_def)








subsection \<open>The concrete enclosures\<close>

lemma table_lookups:
  "get_by_ibpi LED_IBPI_PATTERN_NORMAL ibpi_to_npem_capability =
     \<lparr>ibpi = LED_IBPI_PATTERN_NORMAL, value = 4\<rparr>"
  "get_by_ibpi LED_IBPI_PATTERN_LOCATE_OFF ibpi_to_npem_capability =
     \<lparr>ibpi = LED_IBPI_PATTERN_LOCATE_OFF, value = 4\<rparr>"
  "get_by_ibpi LED_IBPI_PATTERN_FAILED_DRIVE ibpi_to_npem_capability =
     \<lparr>ibpi = LED_IBPI_PATTERN_FAILED_DRIVE, value = 0x10\<rparr>"
  "get_by_ibpi LED_IBPI_PATTERN_REBUILD ibpi_to_npem_capability =
     \<lparr>ibpi = LED_IBPI_PATTERN_REBUILD, value = 0x20\<rparr>"
  "get_by_ibpi LED_IBPI_PATTERN_LOCATE ibpi_to_npem_capability =
     \<lparr>ibpi = LED_IBPI_PATTERN_LOCATE, value = 8\<rparr>"
  "get_by_ibpi 12 ibpi_to_npem_capability = \<lparr>ibpi = LED_IBPI_PATTERN_UNKNOWN, value = 0\<rparr>"
  by (simp_all add: ibpi_to_npem_capability_def LED_IBPI_PATTERN_defs PCI_NPEM_defs)

lemma scenario_path_inj:
  assumes "length a \<le> 64" and "length b \<le> 64"
  shows "make_led_path scenario_root a = make_led_path scenario_root b \<longleftrightarrow> a = b"
  by (simp add: scenario_path assms led_path_text_inj)

lemma scenario_nodes:
  assumes "length name \<le> 64"
  shows "nodes scenario_fs (make_led_path scenario_root name) =
    (if name = ''enclosure:fail'' \<or> name = ''enclosure:ok'' then Some ''1'' else None)"
  by (simp add: scenario_fs_def scenario_path_inj assms)

lemma scenario_readonly: "readonly scenario_fs = {}"
  by (simp add: scenario_fs_def)

lemma scenario_calls: "calls scenario_fs = []"
  by (simp add: scenario_fs_def)


lemma scenario_supported:
  "fst (kernel_npem_supported_mask scenario_fs scenario_root) = 0x14"
  by (simp add: supported_mask_fst kernel_npem_leds_def led_node_def scenario_nodes
        PCI_NPEM_defs)

lemma scenario_node_value:
  assumes "length name \<le> 64"
  shows "node_value scenario_fs (make_led_path scenario_root name) =
    (if name = ''enclosure:fail'' \<or> name = ''enclosure:ok'' then 1 else 0)"
  by (simp add: node_value_def get_int_def scenario_nodes assms int_of_text_1)

lemma scenario_register:
  "fst (read_kernel_npem_register scenario_fs scenario_root) = 0x14"
  by (simp add: read_register_fst kernel_npem_leds_def led_node_def scenario_node_value
        PCI_NPEM_defs)

lemma stuck_nodes:
  assumes "length name \<le> 64"
  shows "nodes stuck_fs (make_led_path scenario_root name) =
    (if name = ''enclosure:fail'' then Some ''1''
     else if name = ''enclosure:locate'' then Some ''0'' else None)"
  by (simp add: stuck_fs_def scenario_path_inj assms)

lemma stuck_readonly:
  assumes "length name \<le> 64"
  shows "make_led_path scenario_root name \<in> readonly stuck_fs \<longleftrightarrow> name = ''enclosure:fail''"
  by (simp add: stuck_fs_def scenario_path_inj assms)

lemma stuck_supported:
  "fst (kernel_npem_supported_mask stuck_fs scenario_root) = 0x18"
  by (simp add: supported_mask_fst kernel_npem_leds_def led_node_def stuck_nodes
        PCI_NPEM_defs)

lemma scenario_normal_ok:
  "fst (kernel_npem_set_slot scenario_fs scenario_root LED_IBPI_PATTERN_NORMAL) = STATUS_SUCCESS"
  by (simp add: set_slot_success_iff table_lookups scenario_supported;
      simp add: PCI_NPEM_defs LED_IBPI_PATTERN_defs)

lemma stuck_normal_ok:
  "fst (kernel_npem_set_slot stuck_fs scenario_root LED_IBPI_PATTERN_NORMAL) = STATUS_SUCCESS"
  by (simp add: set_slot_success_iff table_lookups stuck_supported;
      simp add: PCI_NPEM_defs LED_IBPI_PATTERN_defs)


lemma long_root_supported:
  "fst (kernel_npem_supported_mask long_fs long_root) = 0x3fc"
  by (simp add: supported_mask_fst long_root_node long_fs_def kernel_npem_leds_def
        PCI_NPEM_defs)

lemma ok_text:
  assumes "led \<in> set kernel_npem_leds"
  shows "val_text (word_of_int PCI_NPEM_OK_CAP) led =
    (if sysfs_led_name led = ''enclosure:ok'' then ''1'' else ''0'')"
  using assms by (auto simp: kernel_npem_leds_def val_text_def PCI_NPEM_defs)

lemma scenario_after_normal:
  assumes "length name \<le> 64"
  shows "nodes (snd (kernel_npem_set_slot scenario_fs scenario_root LED_IBPI_PATTERN_NORMAL))
      (make_led_path scenario_root name) =
    (if name = ''enclosure:ok'' then Some ''1''
     else if name = ''enclosure:fail'' then Some ''0'' else None)"
  unfolding set_slot_success_nodes[OF scenario_normal_ok] table_lookups
  by (simp add: scenario_nodes scenario_readonly assms kernel_npem_leds_def led_node_def
        val_text_def PCI_NPEM_defs scenario_path_inj)

lemma stuck_after_normal:
  assumes "length name \<le> 64"
  shows "nodes (snd (kernel_npem_set_slot stuck_fs scenario_root LED_IBPI_PATTERN_NORMAL))
      (make_led_path scenario_root name) =
    (if name = ''enclosure:fail'' then Some ''1''
     else if name = ''enclosure:locate'' then Some ''0'' else None)"
  unfolding set_slot_success_nodes[OF stuck_normal_ok] table_lookups
  by (simp add: stuck_nodes stuck_readonly assms kernel_npem_leds_def led_node_def
        val_text_def PCI_NPEM_defs scenario_path_inj)



section \<open>The claims\<close>

subsection \<open>C1\<close>

text \<open>
  Claim C1, as amended. Set-state with Normal or LocateOff returns success on every
  filesystem, whatever nodes exist. After probing, it sends "1" to \<^verbatim>\<open>enclosure:ok\<close> when
  that node exists and "0" to every other LED node that exists. When the paths of the
  enclosure fit, every LED node that exists and takes its write holds that text
  afterwards: "0", except \<^verbatim>\<open>enclosure:ok\<close>, which holds "1".
\<close>

theorem set_slot_normal_locate_off:
  assumes "state = LED_IBPI_PATTERN_NORMAL \<or> state = LED_IBPI_PATTERN_LOCATE_OFF"
  shows "fst (kernel_npem_set_slot fs path state) = STATUS_SUCCESS \<and>
    calls (snd (kernel_npem_set_slot fs path state)) =
      calls fs @ map (\<lambda>led. Stat (led_node path led)) kernel_npem_leds @
      concat (map (\<lambda>led. Stat (led_node path led) #
        (case nodes fs (led_node path led) of
           None \<Rightarrow> []
         | Some _ \<Rightarrow> [Write (led_node path led)
              (if sysfs_led_name led = ''enclosure:ok'' then ''1'' else ''0'')]))
        kernel_npem_leds) \<and>
    (led_paths_fit path \<longrightarrow>
      (\<forall>led \<in> set kernel_npem_leds. led_node path led \<notin> readonly fs \<longrightarrow>
         nodes (snd (kernel_npem_set_slot fs path state)) (led_node path led) =
           (case nodes fs (led_node path led) of
              None \<Rightarrow> None
            | Some _ \<Rightarrow> Some (if sysfs_led_name led = ''enclosure:ok'' then ''1'' else ''0''))))"
proof -
  have e: "get_by_ibpi state ibpi_to_npem_capability =
      \<lparr>ibpi = state, value = word_of_int PCI_NPEM_OK_CAP\<rparr>"
    using assms by (auto simp: ibpi_to_npem_capability_def LED_IBPI_PATTERN_defs)
  have known: "state \<noteq> LED_IBPI_PATTERN_UNKNOWN"
    using assms by (auto simp: LED_IBPI_PATTERN_defs)
  have ok: "fst (kernel_npem_set_slot fs path state) = STATUS_SUCCESS"
    by (simp add: set_slot_success_iff e known)
  have sent: "calls (snd (kernel_npem_set_slot fs path state)) =
      calls fs @ map (\<lambda>led. Stat (led_node path led)) kernel_npem_leds @
      concat (map (\<lambda>led. Stat (led_node path led) #
        (case nodes fs (led_node path led) of
           None \<Rightarrow> []
         | Some _ \<Rightarrow> [Write (led_node path led)
              (if sysfs_led_name led = ''enclosure:ok'' then ''1'' else ''0'')]))
        kernel_npem_leds)"
    unfolding set_slot_success_snd[OF ok] e write_leds_calls supported_mask_calls
      supported_mask_nodes
    by (simp, intro arg_cong[where f = concat] map_cong refl)
       (simp add: ok_text split: option.splits)
  have "nodes (snd (kernel_npem_set_slot fs path state)) (led_node path led) =
         (case nodes fs (led_node path led) of
            None \<Rightarrow> None
          | Some _ \<Rightarrow> Some (if sysfs_led_name led = ''enclosure:ok'' then ''1'' else ''0''))"
    if fit: "led_paths_fit path" and led: "led \<in> set kernel_npem_leds"
      and writable: "led_node path led \<notin> readonly fs" for led
  proof -
    from writable have "led_node path led \<notin> readonly (snd (kernel_npem_supported_mask fs path))"
      by (simp add: supported_mask_readonly)
    from write_leds_node[OF led_nodes_distinct[OF fit] led this] show ?thesis
      unfolding set_slot_success_snd[OF ok] e
      by (simp add: supported_mask_nodes ok_text[OF led] split: option.splits)
  qed
  with ok sent show ?thesis by blast
qed

theorem set_slot_normal_locate_off_witness:
  "fst (kernel_npem_set_slot scenario_fs scenario_root LED_IBPI_PATTERN_LOCATE_OFF) =
     STATUS_SUCCESS \<and>
   nodes (snd (kernel_npem_set_slot scenario_fs scenario_root LED_IBPI_PATTERN_LOCATE_OFF))
     (make_led_path scenario_root ''enclosure:ok'') = Some ''1'' \<and>
   nodes (snd (kernel_npem_set_slot scenario_fs scenario_root LED_IBPI_PATTERN_LOCATE_OFF))
     (make_led_path scenario_root ''enclosure:fail'') = Some ''0'' \<and>
   nodes (snd (kernel_npem_set_slot scenario_fs scenario_root LED_IBPI_PATTERN_LOCATE_OFF))
     (make_led_path scenario_root ''enclosure:locate'') = None"
  using set_slot_normal_locate_off[of LED_IBPI_PATTERN_LOCATE_OFF scenario_fs scenario_root] scenario_fits
  by (simp add: kernel_npem_leds_def led_node_def scenario_nodes scenario_readonly)

text \<open>
  Claim C1 as stated fails. On the enclosure that exposes \<^verbatim>\<open>enclosure:ok\<close> and
  \<^verbatim>\<open>enclosure:fail\<close>, Set-state with Normal succeeds and leaves \<^verbatim>\<open>enclosure:ok\<close> holding
  "1", which reads as 1. On the enclosure whose \<^verbatim>\<open>enclosure:fail\<close> rejects writes, Set-state
  with Normal succeeds as well, and \<^verbatim>\<open>enclosure:fail\<close> still holds "1".
\<close>

theorem set_slot_normal_lights_ok:
  "fst (kernel_npem_set_slot scenario_fs scenario_root LED_IBPI_PATTERN_NORMAL) = STATUS_SUCCESS \<and>
   nodes (snd (kernel_npem_set_slot scenario_fs scenario_root LED_IBPI_PATTERN_NORMAL))
     (make_led_path scenario_root ''enclosure:ok'') = Some ''1'' \<and>
   fst (get_int (snd (kernel_npem_set_slot scenario_fs scenario_root LED_IBPI_PATTERN_NORMAL)) 0
     (make_led_path scenario_root ''enclosure:ok'')) = 1 \<and>
   fst (kernel_npem_set_slot stuck_fs scenario_root LED_IBPI_PATTERN_NORMAL) = STATUS_SUCCESS \<and>
   nodes (snd (kernel_npem_set_slot stuck_fs scenario_root LED_IBPI_PATTERN_NORMAL))
     (make_led_path scenario_root ''enclosure:fail'') = Some ''1'' \<and>
   fst (get_int (snd (kernel_npem_set_slot stuck_fs scenario_root LED_IBPI_PATTERN_NORMAL)) 0
     (make_led_path scenario_root ''enclosure:fail'')) = 1"
  by (simp add: scenario_normal_ok stuck_normal_ok get_int_def scenario_after_normal
        stuck_after_normal int_of_text_1)

subsection \<open>C2\<close>




subsection \<open>C3\<close>

text \<open>
  Claim C3. For a pattern with no entry in the pattern-capability table, and for a pattern
  whose capability bit is neither in the supported mask nor the OK bit, Set-state returns
  \<^const>\<open>STATUS_INVALID_STATE\<close> and leaves every node as it was; for a pattern with no
  entry it does not touch the filesystem at all.
\<close>

theorem set_slot_unsupported:
  assumes "state \<notin> ibpi ` set ibpi_to_npem_capability \<or>
     (value (get_by_ibpi state ibpi_to_npem_capability) AND
        fst (kernel_npem_supported_mask fs path) = 0 \<and>
      value (get_by_ibpi state ibpi_to_npem_capability) \<noteq> word_of_int PCI_NPEM_OK_CAP)"
  shows "fst (kernel_npem_set_slot fs path state) = STATUS_INVALID_STATE \<and>
     nodes (snd (kernel_npem_set_slot fs path state)) = nodes fs \<and>
     (state \<notin> ibpi ` set ibpi_to_npem_capability \<longrightarrow>
        snd (kernel_npem_set_slot fs path state) = fs)"
proof -
  have absent: "kernel_npem_set_slot fs path state = (STATUS_INVALID_STATE, fs)"
    if "state \<notin> ibpi ` set ibpi_to_npem_capability"
    using get_by_ibpi_absent[OF that] by (simp add: set_slot_cases)
  show ?thesis
  proof (cases "state \<notin> ibpi ` set ibpi_to_npem_capability")
    case True
    then show ?thesis by (simp add: absent)
  next
    case False
    with assms show ?thesis
      by (simp add: set_slot_cases Let_def supported_mask_nodes)
  qed
qed

theorem set_slot_unsupported_witness:
  "value (get_by_ibpi LED_IBPI_PATTERN_REBUILD ibpi_to_npem_capability) AND
     fst (kernel_npem_supported_mask scenario_fs scenario_root) = 0 \<and>
   value (get_by_ibpi LED_IBPI_PATTERN_REBUILD ibpi_to_npem_capability) \<noteq>
     word_of_int PCI_NPEM_OK_CAP \<and>
   fst (kernel_npem_set_slot scenario_fs scenario_root LED_IBPI_PATTERN_REBUILD) =
     STATUS_INVALID_STATE \<and>
   nodes (snd (kernel_npem_set_slot scenario_fs scenario_root LED_IBPI_PATTERN_REBUILD)) =
     nodes scenario_fs \<and>
   fst (kernel_npem_set_slot scenario_fs scenario_root 12) = STATUS_INVALID_STATE \<and>
   snd (kernel_npem_set_slot scenario_fs scenario_root 12) = scenario_fs"
proof -
  have unsupported:
    "value (get_by_ibpi LED_IBPI_PATTERN_REBUILD ibpi_to_npem_capability) AND
       fst (kernel_npem_supported_mask scenario_fs scenario_root) = 0"
    "value (get_by_ibpi LED_IBPI_PATTERN_REBUILD ibpi_to_npem_capability) \<noteq>
       word_of_int PCI_NPEM_OK_CAP"
    by (simp_all add: table_lookups scenario_supported PCI_NPEM_defs)
  have absent: "12 \<notin> ibpi ` set ibpi_to_npem_capability"
    by (simp add: ibpi_to_npem_capability_def LED_IBPI_PATTERN_defs)
  show ?thesis
    using set_slot_unsupported[of LED_IBPI_PATTERN_REBUILD scenario_fs scenario_root]
      set_slot_unsupported[of 12 scenario_fs scenario_root] unsupported absent
    by simp
qed

subsection \<open>C4\<close>

text \<open>
  Claim C4. For every enclosure path and every target mask the register writer returns 0.
  The calls it makes are one \<^verbatim>\<open>stat\<close> per LED, in table order, each followed, exactly
  when that \<^verbatim>\<open>stat\<close> found the node, by a write of "1" if the LED's bit is in the mask and
  of "0" if it is not: no supported mask is consulted, and a node that does not exist is
  skipped. A node that does not exist and a path that is no LED's are left as they were.
  When the paths of the enclosure fit, every LED node that exists and takes its write
  holds the text sent to it.
\<close>

theorem write_register_contract:
  "fst (write_kernel_npem_register fs path val) = 0 \<and>
   calls (snd (write_kernel_npem_register fs path val)) =
     calls fs @ concat (map (\<lambda>led. Stat (led_node path led) #
       (case nodes fs (led_node path led) of
          None \<Rightarrow> []
        | Some _ \<Rightarrow> [Write (led_node path led)
             (if val AND word_of_int (bitmask led) \<noteq> 0 then ''1'' else ''0'')]))
       kernel_npem_leds) \<and>
   (\<forall>q. nodes fs q = None \<or> q \<notin> led_node path ` set kernel_npem_leds \<longrightarrow>
      nodes (snd (write_kernel_npem_register fs path val)) q = nodes fs q) \<and>
   (led_paths_fit path \<longrightarrow>
     (\<forall>led \<in> set kernel_npem_leds. led_node path led \<notin> readonly fs \<longrightarrow>
        nodes (snd (write_kernel_npem_register fs path val)) (led_node path led) =
          (case nodes fs (led_node path led) of
             None \<Rightarrow> None
           | Some _ \<Rightarrow> Some (if val AND word_of_int (bitmask led) \<noteq> 0 then ''1'' else ''0''))))"
proof -
  have "nodes (write_leds path val kernel_npem_leds fs) (led_node path led) =
      (case nodes fs (led_node path led) of
         None \<Rightarrow> None
       | Some _ \<Rightarrow> Some (if val AND word_of_int (bitmask led) \<noteq> 0 then ''1'' else ''0''))"
    if "led_paths_fit path" and "led \<in> set kernel_npem_leds"
      and "led_node path led \<notin> readonly fs" for led
    using write_leds_node[OF led_nodes_distinct[OF that(1)] that(2,3), where val = val]
    by (simp add: val_text_def split: option.splits)
  moreover have "calls (write_leds path val kernel_npem_leds fs) =
     calls fs @ concat (map (\<lambda>led. Stat (led_node path led) #
       (case nodes fs (led_node path led) of
          None \<Rightarrow> []
        | Some _ \<Rightarrow> [Write (led_node path led)
             (if val AND word_of_int (bitmask led) \<noteq> 0 then ''1'' else ''0'')]))
       kernel_npem_leds)"
    unfolding write_leds_calls
    by (intro arg_cong[where f = "\<lambda>xs. calls fs @ concat xs"] map_cong refl)
       (simp add: val_text_def split: option.splits)
  moreover have "nodes (write_leds path val kernel_npem_leds fs) q = nodes fs q"
    if "nodes fs q = None \<or> q \<notin> led_node path ` set kernel_npem_leds" for q
    using that by (auto simp: write_leds_nodes last_write_other)
  ultimately show ?thesis
    by (simp add: write_kernel_npem_register_def)
qed

theorem write_register_contract_witness:
  "fst (write_kernel_npem_register scenario_fs scenario_root 0x10) = 0 \<and>
   nodes (snd (write_kernel_npem_register scenario_fs scenario_root 0x10))
     (make_led_path scenario_root ''enclosure:ok'') = Some ''0'' \<and>
   nodes (snd (write_kernel_npem_register scenario_fs scenario_root 0x10))
     (make_led_path scenario_root ''enclosure:fail'') = Some ''1'' \<and>
   nodes (snd (write_kernel_npem_register scenario_fs scenario_root 0x10))
     (make_led_path scenario_root ''enclosure:locate'') = None \<and>
   calls (snd (write_kernel_npem_register scenario_fs scenario_root 0x10)) =
     [Stat (make_led_path scenario_root ''enclosure:ok''),
      Write (make_led_path scenario_root ''enclosure:ok'') ''0'',
      Stat (make_led_path scenario_root ''enclosure:locate''),
      Stat (make_led_path scenario_root ''enclosure:fail''),
      Write (make_led_path scenario_root ''enclosure:fail'') ''1'',
      Stat (make_led_path scenario_root ''enclosure:rebuild''),
      Stat (make_led_path scenario_root ''enclosure:pfa''),
      Stat (make_led_path scenario_root ''enclosure:hotspare''),
      Stat (make_led_path scenario_root ''enclosure:ica''),
      Stat (make_led_path scenario_root ''enclosure:ifa'')] \<and>
   fst (write_kernel_npem_register stuck_fs scenario_root 0) = 0 \<and>
   calls (snd (write_kernel_npem_register stuck_fs scenario_root 0)) =
     [Stat (make_led_path scenario_root ''enclosure:ok''),
      Stat (make_led_path scenario_root ''enclosure:locate''),
      Write (make_led_path scenario_root ''enclosure:locate'') ''0'',
      Stat (make_led_path scenario_root ''enclosure:fail''),
      Write (make_led_path scenario_root ''enclosure:fail'') ''0'',
      Stat (make_led_path scenario_root ''enclosure:rebuild''),
      Stat (make_led_path scenario_root ''enclosure:pfa''),
      Stat (make_led_path scenario_root ''enclosure:hotspare''),
      Stat (make_led_path scenario_root ''enclosure:ica''),
      Stat (make_led_path scenario_root ''enclosure:ifa'')]"
proof -
  have "calls stuck_fs = []"
    by (simp add: stuck_fs_def)
  with write_register_contract[of scenario_fs scenario_root "0x10"] write_register_contract[of stuck_fs scenario_root 0] scenario_fits
  show ?thesis
    by (simp add: kernel_npem_leds_def led_node_def scenario_nodes scenario_calls
          scenario_readonly stuck_nodes PCI_NPEM_defs)
qed

subsection \<open>C5\<close>



subsection \<open>C6\<close>

text \<open>
  Claim C6. For every query mask, the lookup by bits over the pattern-capability table
  returns the first entry, in table order, whose bit is in the mask, and the sentinel when
  there is none; so a mask with several bits resolves to the entry that comes first. When
  the register read from the nodes has the OK bit, Get-state returns Normal.
\<close>

theorem get_by_bits_first_match:
  "get_by_bits bits ibpi_to_npem_capability =
     (case find (\<lambda>e. value e AND bits \<noteq> 0) ibpi_to_npem_capability of
        Some e \<Rightarrow> e
      | None \<Rightarrow> \<lparr>ibpi = LED_IBPI_PATTERN_UNKNOWN, value = 0\<rparr>) \<and>
   (fst (read_kernel_npem_register fs (sysfs_path (slot_cntrl slot))) AND
      word_of_int PCI_NPEM_OK_CAP \<noteq> 0 \<longrightarrow>
    fst (kernel_npem_get_state fs slot) = LED_IBPI_PATTERN_NORMAL)"
proof -
  have "ibpi_to_npem_capability \<noteq> []"
    and "last ibpi_to_npem_capability = \<lparr>ibpi = LED_IBPI_PATTERN_UNKNOWN, value = 0\<rparr>"
    by (simp_all add: ibpi_to_npem_capability_def)
  then have "get_by_bits bits ibpi_to_npem_capability =
     (case find (\<lambda>e. value e AND bits \<noteq> 0) ibpi_to_npem_capability of
        Some e \<Rightarrow> e
      | None \<Rightarrow> \<lparr>ibpi = LED_IBPI_PATTERN_UNKNOWN, value = 0\<rparr>)"
    by (simp add: get_by_bits_find split: option.splits)
  moreover have "fst (kernel_npem_get_state fs slot) = LED_IBPI_PATTERN_NORMAL"
    if "fst (read_kernel_npem_register fs (sysfs_path (slot_cntrl slot))) AND
      word_of_int PCI_NPEM_OK_CAP \<noteq> 0"
    unfolding get_state_fst using that by (rule get_by_bits_ok)
  ultimately show ?thesis
    by blast
qed

theorem get_by_bits_first_match_witness:
  "get_by_bits 0x14 ibpi_to_npem_capability = \<lparr>ibpi = LED_IBPI_PATTERN_NORMAL, value = 4\<rparr> \<and>
   fst (read_kernel_npem_register scenario_fs (sysfs_path (slot_cntrl scenario_slot))) AND
     word_of_int PCI_NPEM_OK_CAP \<noteq> 0 \<and>
   fst (kernel_npem_get_state scenario_fs scenario_slot) = LED_IBPI_PATTERN_NORMAL"
proof -
  have lit: "fst (read_kernel_npem_register scenario_fs (sysfs_path (slot_cntrl scenario_slot))) AND
     word_of_int PCI_NPEM_OK_CAP \<noteq> 0"
    by (simp add: scenario_slot_def scenario_register PCI_NPEM_defs)
  have "find (\<lambda>e. value e AND 0x14 \<noteq> 0) ibpi_to_npem_capability =
      Some \<lparr>ibpi = LED_IBPI_PATTERN_NORMAL, value = 4\<rparr>"
    by (simp add: ibpi_to_npem_capability_def PCI_NPEM_defs)
  with get_by_bits_first_match[of "0x14" scenario_fs scenario_slot] lit show ?thesis by simp
qed

subsection \<open>C7\<close>

text \<open>
  Claim C7. When Set-state succeeds for a pattern, a second Set-state with the same pattern
  on the filesystem the first one left succeeds too, and leaves every node with the text
  the first call gave it.
\<close>

theorem set_slot_idempotent:
  assumes "fst (kernel_npem_set_slot fs path state) = STATUS_SUCCESS"
  shows "fst (kernel_npem_set_slot (snd (kernel_npem_set_slot fs path state)) path state) =
      STATUS_SUCCESS \<and>
    nodes (snd (kernel_npem_set_slot (snd (kernel_npem_set_slot fs path state)) path state)) =
      nodes (snd (kernel_npem_set_slot fs path state))"
proof -
  define fs1 where "fs1 = snd (kernel_npem_set_slot fs path state)"
  have ex1: "nodes fs1 q = None \<longleftrightarrow> nodes fs q = None" for q
    unfolding fs1_def set_slot_success_snd[OF assms]
    by (simp add: write_leds_exists supported_mask_nodes)
  have ok2: "fst (kernel_npem_set_slot fs1 path state) = STATUS_SUCCESS"
    using assms unfolding set_slot_success_iff supported_mask_dom_cong[of fs1 fs, OF ex1] .
  have ro1: "readonly fs1 = readonly fs"
    by (simp add: fs1_def set_slot_readonly)
  have once: "nodes fs1 q =
    (if nodes fs q = None \<or> q \<in> readonly fs then nodes fs q
     else case last_write path (value (get_by_ibpi state ibpi_to_npem_capability))
            kernel_npem_leds q of
          None \<Rightarrow> nodes fs q | Some t \<Rightarrow> Some t)" for q
    unfolding fs1_def by (rule set_slot_success_nodes[OF assms])
  have "nodes (snd (kernel_npem_set_slot fs1 path state)) q = nodes fs1 q" for q
    unfolding set_slot_success_nodes[OF ok2] ro1
    by (simp add: once split: option.splits)
  then have "nodes (snd (kernel_npem_set_slot fs1 path state)) = nodes fs1"
    by (rule ext)
  with ok2 show ?thesis by (simp add: fs1_def)
qed

theorem set_slot_idempotent_witness:
  "fst (kernel_npem_set_slot scenario_fs scenario_root LED_IBPI_PATTERN_FAILED_DRIVE) =
     STATUS_SUCCESS \<and>
   fst (kernel_npem_set_slot
     (snd (kernel_npem_set_slot scenario_fs scenario_root LED_IBPI_PATTERN_FAILED_DRIVE))
     scenario_root LED_IBPI_PATTERN_FAILED_DRIVE) = STATUS_SUCCESS \<and>
   nodes (snd (kernel_npem_set_slot
     (snd (kernel_npem_set_slot scenario_fs scenario_root LED_IBPI_PATTERN_FAILED_DRIVE))
     scenario_root LED_IBPI_PATTERN_FAILED_DRIVE)) =
   nodes (snd (kernel_npem_set_slot scenario_fs scenario_root LED_IBPI_PATTERN_FAILED_DRIVE))"
proof -
  have ok: "fst (kernel_npem_set_slot scenario_fs scenario_root LED_IBPI_PATTERN_FAILED_DRIVE) =
      STATUS_SUCCESS"
    by (simp add: set_slot_success_iff table_lookups scenario_supported;
        simp add: LED_IBPI_PATTERN_defs)
  from set_slot_idempotent[OF ok] ok show ?thesis by simp
qed

subsection \<open>C8\<close>

text \<open>
  Claim C8. When no LED node exists below the slot's enclosure, Get-state returns the
  Unknown pattern.
\<close>

theorem get_state_no_nodes:
  assumes "\<forall>led \<in> set kernel_npem_leds. nodes fs (led_node (sysfs_path (slot_cntrl slot)) led) = None"
  shows "fst (kernel_npem_get_state fs slot) = LED_IBPI_PATTERN_UNKNOWN"
proof -
  have "node_value fs (led_node (sysfs_path (slot_cntrl slot)) led) = 0"
    if "led \<in> set kernel_npem_leds" for led
    using assms that by (simp add: node_value_def get_int_def)
  then have "fst (read_kernel_npem_register fs (sysfs_path (slot_cntrl slot))) = 0"
    by (simp add: read_register_fst or_mask_eq_0)
  then show ?thesis
    by (simp add: get_state_fst get_by_bits_zero)
qed

theorem get_state_no_nodes_witness:
  "list_all (\<lambda>led. nodes bare_fs (led_node (sysfs_path (slot_cntrl scenario_slot)) led) = None)
     kernel_npem_leds \<and>
   fst (kernel_npem_get_state bare_fs scenario_slot) = LED_IBPI_PATTERN_UNKNOWN"
  using get_state_no_nodes[of bare_fs scenario_slot] by (simp add: bare_fs_def list_all_iff)

subsection \<open>C9\<close>

text \<open>
  Claim C9. For a pattern below Normal or above LocateOff, \<^const>\<open>kernel_npem_write\<close>
  returns \<^const>\<open>STATUS_INVALID_STATE\<close>, and the filesystem it returns is the one it was
  given, with no call added: the request is rejected before any access. The code is the
  one Set-state returns for a pattern the table has no entry for.
\<close>

theorem kernel_npem_write_range_check:
  assumes "pattern < LED_IBPI_PATTERN_NORMAL \<or> pattern > LED_IBPI_PATTERN_LOCATE_OFF"
  shows "kernel_npem_write fs device pattern = (STATUS_INVALID_STATE, fs) \<and>
    (other \<notin> ibpi ` set ibpi_to_npem_capability \<longrightarrow>
       fst (kernel_npem_set_slot fs' path other) = fst (kernel_npem_write fs device pattern))"
proof -
  have rejected: "kernel_npem_write fs device pattern = (STATUS_INVALID_STATE, fs)"
    using assms by (auto simp: kernel_npem_write_def)
  have "fst (kernel_npem_set_slot fs' path other) = STATUS_INVALID_STATE"
    if "other \<notin> ibpi ` set ibpi_to_npem_capability"
    using get_by_ibpi_absent[OF that] by (simp add: set_slot_cases)
  with rejected show ?thesis by simp
qed

theorem kernel_npem_write_range_check_witness:
  "LED_IBPI_PATTERN_UNKNOWN < LED_IBPI_PATTERN_NORMAL \<and>
   kernel_npem_write scenario_fs scenario_device LED_IBPI_PATTERN_UNKNOWN =
     (STATUS_INVALID_STATE, scenario_fs) \<and>
   LED_IBPI_PATTERN_LOCATE_OFF < 12 \<and>
   kernel_npem_write scenario_fs scenario_device 12 = (STATUS_INVALID_STATE, scenario_fs) \<and>
   fst (kernel_npem_set_slot bare_fs scenario_root 12) =
     fst (kernel_npem_write scenario_fs scenario_device 12)"
proof -
  have below: "LED_IBPI_PATTERN_UNKNOWN < LED_IBPI_PATTERN_NORMAL"
    and above: "LED_IBPI_PATTERN_LOCATE_OFF < 12"
    by (simp_all add: LED_IBPI_PATTERN_defs)
  have absent: "12 \<notin> ibpi ` set ibpi_to_npem_capability"
    by (simp add: ibpi_to_npem_capability_def LED_IBPI_PATTERN_defs)
  from below have "LED_IBPI_PATTERN_UNKNOWN < LED_IBPI_PATTERN_NORMAL \<or>
      LED_IBPI_PATTERN_UNKNOWN > LED_IBPI_PATTERN_LOCATE_OFF" ..
  note low = kernel_npem_write_range_check[OF this, of scenario_fs scenario_device 12 bare_fs scenario_root]
  from above have "12 < LED_IBPI_PATTERN_NORMAL \<or> 12 > LED_IBPI_PATTERN_LOCATE_OFF" ..
  note high = kernel_npem_write_range_check[OF this, of scenario_fs scenario_device 12 bare_fs scenario_root]
  from low high absent below above show ?thesis
    by simp
qed

subsection \<open>C10\<close>

text \<open>
  Claim C10. On every filesystem, Get-state returns neither OneshotNormal nor LocateOff:
  both share the OK bit with Normal, which precedes them in the table.
\<close>

theorem get_state_never_oneshot_or_locate_off: 
  "fst (kernel_npem_get_state fs slot) \<noteq> LED_IBPI_PATTERN_ONESHOT_NORMAL \<and>
   fst (kernel_npem_get_state fs slot) \<noteq> LED_IBPI_PATTERN_LOCATE_OFF"
  unfolding get_state_fst by (rule get_by_bits_table_cases)

theorem get_state_never_oneshot_or_locate_off_witness:
  "fst (kernel_npem_get_state scenario_fs scenario_slot) \<noteq> LED_IBPI_PATTERN_ONESHOT_NORMAL \<and>
   fst (kernel_npem_get_state scenario_fs scenario_slot) \<noteq> LED_IBPI_PATTERN_LOCATE_OFF"
  by (rule get_state_never_oneshot_or_locate_off)

end
